theory Spec2Isabelle
  imports Complex_Main
begin

section \<open>Numerical faults\<close>

text \<open>
  The arrays of \<^verbatim>\<open>core.py\<close> hold floating-point numbers.  They are idealised here as
  real numbers; the operations that leave the reals in floating point are made explicit:
  a square root of a negative number and a fractional power of a negative number give
  NaN, a division by zero gives an infinity.  A raised Python exception is a fault too.
\<close>

datatype fault =
  NotANumber | Infinite | IndexError | ValueError | TypeError | UnboundLocalError | RuntimeError |
  ZeroDivisionError

section \<open>The Eikonal update (\<^verbatim>\<open>update_torch\<close>, \<^verbatim>\<open>eikonal_update_torch\<close>)\<close>


definition count_nonzero :: "bool list \<Rightarrow> nat" where
  "count_nonzero bs = length (filter (\<lambda>b. b) bs)"




section \<open>Arrays\<close>

text \<open>
  A numpy array is its shape and its entries in C order (the last axis runs fastest).
  A pixel is addressed by its coordinate vector, or by its position in the flat data.
\<close>

record 'a ndarray =
  shape :: "nat list"
  data :: "'a list"

fun unravel :: "nat list \<Rightarrow> nat \<Rightarrow> nat list" where
  "unravel [] i = []"
| "unravel (n # ns) i = (i div prod_list ns) # unravel ns (i mod prod_list ns)"

fun ravel :: "nat list \<Rightarrow> nat list \<Rightarrow> nat" where
  "ravel (n # ns) (i # is) = i * prod_list ns + ravel ns is"
| "ravel ns is = 0"

definition get :: "'a ndarray \<Rightarrow> nat list \<Rightarrow> 'a" where
  "get arr c = data arr ! ravel (shape arr) c"

text \<open>\<^verbatim>\<open>np.nonzero(cond)\<close> as the list of the coordinate vectors, in C order.\<close>

definition nonzero_where :: "('a \<Rightarrow> bool) \<Rightarrow> 'a ndarray \<Rightarrow> nat list list" where
  "nonzero_where P arr =
     map (unravel (shape arr)) (filter (\<lambda>i. P (data arr ! i)) [0..<length (data arr)])"

text \<open>\<^verbatim>\<open>np.pad(masks, 1)\<close>: one layer of zeros around every axis.\<close>

definition pad1 :: "int ndarray \<Rightarrow> int ndarray" where
  "pad1 arr =
     (let shp = map (\<lambda>n. n + 2) (shape arr)
      in \<lparr>shape = shp,
          data = map (\<lambda>i. let c = unravel shp i
                           in if list_all2 (\<lambda>x n. 1 \<le> x \<and> x \<le> n) c (shape arr)
                              then get arr (map (\<lambda>x. x - 1) c) else 0)
                     [0..<prod_list shp]\<rparr>)"

text \<open>\<^verbatim>\<open>arr[idx] = vals\<close> on flat data, for a list of positions and a list of values.\<close>

definition scatter :: "'a list \<Rightarrow> nat list \<Rightarrow> 'a list \<Rightarrow> 'a list" where
  "scatter out idx vals = fold (\<lambda>iv xs. xs[fst iv := snd iv]) (zip idx vals) out"

text \<open>\<^verbatim>\<open>np.unique\<close> and \<^verbatim>\<open>fastremap.unique\<close>: the distinct entries, sorted.\<close>

definition unique :: "int list \<Rightarrow> int list" where
  "unique xs = sort (remdups xs)"

text \<open>A list of results, or the first fault among them (a list comprehension that raises).\<close>

fun collect :: "(fault + 'a) list \<Rightarrow> fault + 'a list" where
  "collect [] = Inr []"
| "collect (Inl e # xs) = Inl e"
| "collect (Inr x # xs) = (case collect xs of Inl e \<Rightarrow> Inl e | Inr ys \<Rightarrow> Inr (x # ys))"

text \<open>\<^verbatim>\<open>int(x)\<close> and \<^verbatim>\<open>astype(int)\<close> of a float truncate towards zero.\<close>

definition trunc_int :: "real \<Rightarrow> int" where
  "trunc_int r = (if 0 \<le> r then \<lfloor>r\<rfloor> else \<lceil>r\<rceil>)"

section \<open>The Eikonal iteration (\<^verbatim>\<open>eikonal_update_torch\<close>, \<^verbatim>\<open>_extend_centers_torch\<close>)\<close>














section \<open>The field solver's output (\<^verbatim>\<open>masks_to_flows_torch\<close>)\<close>

text \<open>\<^verbatim>\<open>np.zeros(shape)\<close> and \<^verbatim>\<open>arr[1:-1, ..., 1:-1]\<close>.\<close>

definition zeros :: "nat list \<Rightarrow> real ndarray" where
  "zeros shp = \<lparr>shape = shp, data = replicate (prod_list shp) 0\<rparr>"

definition unpad1 :: "real ndarray \<Rightarrow> real ndarray" where
  "unpad1 arr =
     (let shp = map (\<lambda>n. n - 2) (shape arr)
      in \<lparr>shape = shp,
          data = map (\<lambda>i. get arr (map (\<lambda>x. x + 1) (unravel shp i))) [0..<prod_list shp]\<rparr>)"

text \<open>The flat positions of \<^verbatim>\<open>np.nonzero(masks)\<close>, in C order.\<close>

definition nonzero_flat :: "int ndarray \<Rightarrow> nat list" where
  "nonzero_flat masks = filter (\<lambda>i. data masks ! i \<noteq> 0) [0..<length (data masks)]"

text \<open>
  \<^verbatim>\<open>masks_to_flows_torch\<close>.  The parameter \<open>solve\<close> stands for the diffusion on the
  padded label image, with the number of iterations taken from \<^verbatim>\<open>dists\<close>, followed by
  the normalisation (\<^verbatim>\<open>_extend_centers_torch\<close>, then \<^verbatim>\<open>utils.normalize_field\<close>, which
  is not among the sources): it gives \<^verbatim>\<open>mu\<close>, one row per flow component with one
  entry per foreground pixel, and the padded potential \<^verbatim>\<open>T\<close>.  The assignment
  \<^verbatim>\<open>mu0[(Ellipsis,)+np.nonzero(masks)] = mu\<close> raises a \<^verbatim>\<open>ValueError\<close> when a row of
  \<^verbatim>\<open>mu\<close> does not have one entry per foreground pixel.
\<close>

definition masks_to_flows_torch ::
  "(int ndarray \<Rightarrow> real ndarray \<Rightarrow> real list list \<times> real ndarray) \<Rightarrow> int ndarray \<Rightarrow>
     real ndarray \<Rightarrow> fault + (real ndarray \<times> real ndarray)" where
  "masks_to_flows_torch solve masks dists =
     (if \<exists>v \<in> set (data masks). v \<noteq> 0
      then
        let masks_padded = pad1 masks;
            mu = fst (solve masks_padded dists); T = snd (solve masks_padded dists);
            nz = nonzero_flat masks
        in if \<exists>row \<in> set mu. length row \<noteq> length nz then Inl ValueError
           else
             Inr (\<lparr>shape = length mu # shape masks,
                   data = concat (map (\<lambda>row. scatter (replicate (prod_list (shape masks)) 0) nz row) mu)\<rparr>,
                  unpad1 T)
      else Inr (zeros (length (shape masks) # shape masks), zeros (shape masks)))"

text \<open>A coordinate vector inside a shape.\<close>

definition in_shape :: "nat list \<Rightarrow> nat list \<Rightarrow> bool" where
  "in_shape shp c = list_all2 (\<lambda>x n. x < n) c shp"

section \<open>The caller of the field solver (\<^verbatim>\<open>masks_to_flows\<close>)\<close>

text \<open>
  \<^verbatim>\<open>np.pad(arr, pad, mode='reflect')\<close>: position \<open>i\<close> of the padded axis reads the
  position that \<open>i - pad\<close> is reflected to at the two ends of the axis, without repeating
  the ends.
\<close>

definition reflect_index :: "nat \<Rightarrow> int \<Rightarrow> nat" where
  "reflect_index n i =
     (if n \<le> 1 then 0
      else let m = 2 * (int n - 1); r = i mod m
           in nat (if r < int n then r else m - r))"

definition pad_reflect :: "nat \<Rightarrow> 'a ndarray \<Rightarrow> 'a ndarray" where
  "pad_reflect pad arr =
     (let shp = map (\<lambda>n. n + 2 * pad) (shape arr)
      in \<lparr>shape = shp,
          data = map (\<lambda>i. get arr (map (\<lambda>xn. reflect_index (snd xn) (int (fst xn) - int pad))
                                       (zip (unravel shp i) (shape arr))))
                     [0..<prod_list shp]\<rparr>)"

text \<open>
  The slice \<^verbatim>\<open>slice(pad, -pad)\<close> of an axis of length \<open>n\<close> has \<open>n - 2 pad\<close> positions,
  and none when \<open>pad\<close> is 0 (the slice is then \<^verbatim>\<open>[0:0]\<close>).  \<open>unpad lead pad arr\<close> is
  \<^verbatim>\<open>arr[(Ellipsis,)+unpad]\<close> for an array with \<open>lead\<close> axes before the spatial ones.
\<close>

definition slice_len :: "nat \<Rightarrow> nat \<Rightarrow> nat" where
  "slice_len pad n = (if pad = 0 then 0 else n - 2 * pad)"

definition unpad :: "nat \<Rightarrow> nat \<Rightarrow> real ndarray \<Rightarrow> real ndarray" where
  "unpad lead pad arr =
     (let shp = take lead (shape arr) @ map (slice_len pad) (drop lead (shape arr))
      in \<lparr>shape = shp,
          data = map (\<lambda>i. let c = unravel shp i
                           in get arr (take lead c @ map (\<lambda>x. x + pad) (drop lead c)))
                     [0..<prod_list shp]\<rparr>)"

text \<open>
  \<^verbatim>\<open>masks_to_flows\<close> on a label image with its distance field \<^verbatim>\<open>dists\<close> given, outside
  the branch that treats a 3D volume slice by slice.  \<open>diameters\<close> stands for
  \<^verbatim>\<open>diameters(masks)\<close>, which rests on the library's distance transform; \<^verbatim>\<open>int\<close> of it
  raises when it is not a number.  The result is \<^verbatim>\<open>(masks, dists, T, mu)\<close>.
\<close>

definition masks_to_flows ::
  "(int ndarray \<Rightarrow> fault + real) \<Rightarrow>
   (int ndarray \<Rightarrow> real ndarray \<Rightarrow> real list list \<times> real ndarray) \<Rightarrow> int ndarray \<Rightarrow>
     real ndarray \<Rightarrow> bool \<Rightarrow> fault + (int ndarray \<times> real ndarray \<times> real ndarray \<times> real ndarray)" where
  "masks_to_flows diameters solve masks dists omni =
     (if omni
      then
        (case diameters masks of
           Inl e \<Rightarrow> Inl e
         | Inr dm \<Rightarrow>
             let pad = nat (trunc_int dm);
                 masks_pad = pad_reflect pad masks;
                 dists_pad = pad_reflect pad dists
             in case masks_to_flows_torch solve masks_pad dists_pad of
                  Inl e \<Rightarrow> Inl e
                | Inr (mu, T) \<Rightarrow> Inr (masks, dists, unpad 0 pad T, unpad 1 pad mu))
      else
        (case masks_to_flows_torch solve masks dists of
           Inl e \<Rightarrow> Inl e
         | Inr (mu, T) \<Rightarrow> Inr (masks, dists, T, mu)))"

section \<open>Clustering branch of the reconstruction (\<^verbatim>\<open>get_masks\<close>, \<^verbatim>\<open>cluster and SKLEARN_ENABLED\<close>)\<close>

text \<open>
  The two library calls are parameters: \<open>dbscan eps min_samples points\<close> stands for
  \<^verbatim>\<open>DBSCAN(eps=eps, min_samples=min_samples).fit(points).labels_\<close> (one label per
  point, \<open>-1\<close> for noise), and \<open>kneighbors n points queries\<close> stands for
  \<^verbatim>\<open>NearestNeighbors(n_neighbors=n).fit(points).kneighbors(queries)[1]\<close> (for every query
  the positions of its \<open>n\<close> nearest points, nearest first), which raises when there are
  fewer than \<open>n\<close> points.
\<close>

type_synonym point = "real list"

text \<open>
  \<^verbatim>\<open>n[(np.where(n!=-1)+(0,))[0][0]]\<close>: the tuple \<^verbatim>\<open>(positions, 0)\<close> is indexed by 0, which
  gives the positions again, and the first position is taken; with no position this
  raises an \<^verbatim>\<open>IndexError\<close>.
\<close>

definition first_labelled :: "int list \<Rightarrow> fault + int" where
  "first_labelled n =
     (case filter (\<lambda>j. n ! j \<noteq> - 1) [0..<length n] of
        [] \<Rightarrow> Inl IndexError
      | j # js \<Rightarrow> Inr (n ! j))"

text \<open>The labels after the block \<^verbatim>\<open>#### snapping outliers\<close>.\<close>

definition snap_outliers ::
  "(nat \<Rightarrow> point list \<Rightarrow> point list \<Rightarrow> fault + nat list list) \<Rightarrow> point list \<Rightarrow> int list \<Rightarrow>
     fault + int list" where
  "snap_outliers kneighbors newinds labels =
     (let o_inds = filter (\<lambda>i. labels ! i = - 1) [0..<length labels]
      in if length o_inds > 1
         then
           let outliers = map (\<lambda>i. newinds ! i) o_inds
           in case kneighbors 50 newinds outliers of
                Inl e \<Rightarrow> Inl e
              | Inr indices \<Rightarrow>
                  let ns = map (map (\<lambda>j. labels ! j)) indices
                  in (case collect (map first_labelled ns) of
                        Inl e \<Rightarrow> Inl e
                      | Inr l \<Rightarrow> Inr (scatter labels o_inds l))
         else Inr labels)"

text \<open>
  The branch: \<^verbatim>\<open>newinds\<close> are the converged coordinates of the foreground pixels
  \<^verbatim>\<open>inds\<close>, \<open>shp\<close> is \<^verbatim>\<open>p.shape[1:]\<close>, and the labels plus one are written at the
  foreground pixels of a zero image.
\<close>

definition get_masks_cluster ::
  "(real \<Rightarrow> nat \<Rightarrow> point list \<Rightarrow> int list) \<Rightarrow>
   (nat \<Rightarrow> point list \<Rightarrow> point list \<Rightarrow> fault + nat list list) \<Rightarrow>
   real \<Rightarrow> nat list \<Rightarrow> nat list list \<Rightarrow> point list \<Rightarrow> fault + int ndarray" where
  "get_masks_cluster dbscan kneighbors eps shp inds newinds =
     (case snap_outliers kneighbors newinds (dbscan eps 3 newinds) of
        Inl e \<Rightarrow> Inl e
      | Inr labels \<Rightarrow>
          Inr \<lparr>shape = shp,
               data = scatter (replicate (prod_list shp) 0) (map (ravel shp) inds)
                        (map (\<lambda>l. l + 1) labels)\<rparr>)"

section \<open>Interpolated advection (\<^verbatim>\<open>step_factor\<close>, \<^verbatim>\<open>map_coordinates\<close>, \<^verbatim>\<open>steps_interp\<close>)\<close>

text \<open>
  A point or a displacement is a vector with one real component per axis, \<open>k < d\<close>.
  \<^verbatim>\<open>steps_interp\<close> treats every point alone (the sampling and the clamp act on each
  point separately), so the model follows one point.
\<close>

type_synonym vec = "nat \<Rightarrow> real"

definition step_factor :: "nat \<Rightarrow> real" where
  "step_factor t = 1 + real t"

definition clamp :: "real \<Rightarrow> real \<Rightarrow> real \<Rightarrow> real" where
  "clamp x lo hi = min hi (max lo x)"

text \<open>
  The branch \<^verbatim>\<open>use_gpu and TORCH_ENABLED\<close>.  \<^verbatim>\<open>torch.nn.functional.grid_sample(im, pt)\<close>
  is the library's interpolation of the (normalised) flow at the point: a parameter.
  The state of the loop is the point \<^verbatim>\<open>pt\<close> and the momentum term \<^verbatim>\<open>dPt0\<close>; the
  step also gives the displacement \<^verbatim>\<open>dPt\<close> it added to the point.
\<close>

definition gpu_step :: "(vec \<Rightarrow> vec) \<Rightarrow> nat \<Rightarrow> bool \<Rightarrow> nat \<Rightarrow> vec \<times> vec \<Rightarrow> (vec \<times> vec) \<times> vec" where
  "gpu_step grid_sample d omni t st =
     (let pt = fst st; dPt0 = snd st;
          dPt = grid_sample pt;
          blend = (\<lambda>k. (dPt k + dPt0 k) / 2);
          dPt0' = (if omni then blend else dPt0);
          dPt' = (if omni then (\<lambda>k. blend k / step_factor t) else dPt);
          pt' = (\<lambda>k. if k < d then clamp (pt k + dPt' k) (- 1) 1 else pt k)
      in ((pt', dPt0'), dPt'))"

text \<open>The state before step \<open>t\<close>: \<^verbatim>\<open>dPt0\<close> starts as the sample at the first position.\<close>

fun gpu_state :: "(vec \<Rightarrow> vec) \<Rightarrow> nat \<Rightarrow> bool \<Rightarrow> vec \<Rightarrow> nat \<Rightarrow> vec \<times> vec" where
  "gpu_state grid_sample d omni p0 0 = (p0, grid_sample p0)"
| "gpu_state grid_sample d omni p0 (Suc t) =
     fst (gpu_step grid_sample d omni t (gpu_state grid_sample d omni p0 t))"

definition gpu_position :: "(vec \<Rightarrow> vec) \<Rightarrow> nat \<Rightarrow> bool \<Rightarrow> vec \<Rightarrow> nat \<Rightarrow> vec" where
  "gpu_position grid_sample d omni p0 t = fst (gpu_state grid_sample d omni p0 t)"


text \<open>The point returned after \<^verbatim>\<open>niter\<close> steps (before the normalisation is undone).\<close>

definition steps_interp_gpu :: "(vec \<Rightarrow> vec) \<Rightarrow> nat \<Rightarrow> bool \<Rightarrow> vec \<Rightarrow> nat \<Rightarrow> vec" where
  "steps_interp_gpu grid_sample d omni p0 niter = gpu_position grid_sample d omni p0 niter"






section \<open>The consistency filter (\<^verbatim>\<open>flow_error\<close>, \<^verbatim>\<open>remove_bad_flow_masks\<close>)\<close>

text \<open>
  \<^verbatim>\<open>np.unique(x, return_inverse=True)[1]\<close>: every entry is replaced by its rank among
  the sorted distinct entries, \<open>unique x\<close>.
\<close>

definition unique_inverse :: "int list \<Rightarrow> int list" where
  "unique_inverse xs = map (\<lambda>v. int (length (takeWhile (\<lambda>u. u \<noteq> v) (unique xs)))) xs"

text \<open>Plane \<open>i\<close> of an array whose first axis numbers the flow components.\<close>

definition plane :: "real ndarray \<Rightarrow> nat \<Rightarrow> real list" where
  "plane arr i = (let n = prod_list (tl (shape arr)) in take n (drop (i * n) (data arr)))"

text \<open>\<^verbatim>\<open>scipy.ndimage.mean(input, labels, index=i)\<close> for one label \<open>i\<close>.\<close>

definition label_mean :: "real list \<Rightarrow> int list \<Rightarrow> int \<Rightarrow> real" where
  "label_mean input labels i =
     (let sel = map fst (filter (\<lambda>p. snd p = i) (zip input labels))
      in sum_list sel / real (length sel))"

text \<open>
  \<^verbatim>\<open>flow_error\<close>.  The flows derived from the label image, \<^verbatim>\<open>masks_to_flows(maski)[-1]\<close>,
  are a parameter \<open>solver\<close>.  The result is the list of the messages logged and
  the outcome of the call: an exception raised (\<open>Inl\<close>), or the value returned, which is
  \<^verbatim>\<open>None\<close> after the bare \<^verbatim>\<open>return\<close>.  Reading \<^verbatim>\<open>dP_net[i]\<close> beyond the first axis of
  \<^verbatim>\<open>dP_net\<close> raises.
\<close>

definition flow_error ::
  "(int ndarray \<Rightarrow> real ndarray) \<Rightarrow> int ndarray \<Rightarrow> real ndarray \<Rightarrow>
     string list \<times> (fault + (real list \<times> real ndarray) option)" where
  "flow_error solver maski dP_net =
     (if drop 1 (shape dP_net) \<noteq> shape maski
      then ([''ERROR: net flow is not same size as predicted masks''], Inr None)
      else
        let maski' = maski\<lparr>data := unique_inverse (data maski)\<rparr>;
            dP_masks = solver maski';
            mx = Max (set (data maski'));
            comps = hd (shape dP_masks)
        in if hd (shape dP_net) < comps then ([], Inl IndexError)
           else
             ([], Inr (Some
               (map (\<lambda>l. sum_list (map (\<lambda>i. label_mean
                                   (map (\<lambda>p. (fst p - snd p / 5)\<^sup>2)
                                        (zip (plane dP_masks i) (plane dP_net i)))
                                   (data maski') l) [0..<comps]))
                    [1..mx],
                dP_masks))))"

text \<open>
  \<^verbatim>\<open>remove_bad_flow_masks\<close> writes into the array it is given.  The arrays live in a
  store, an array is named by its address, and the function returns the store and the
  address of the array it returns.  Unpacking \<^verbatim>\<open>None\<close> into \<^verbatim>\<open>merrors, _\<close> raises
  a \<^verbatim>\<open>TypeError\<close>.
\<close>

type_synonym store = "nat \<Rightarrow> int ndarray"

definition remove_bad_flow_masks ::
  "(int ndarray \<Rightarrow> real ndarray) \<Rightarrow> store \<Rightarrow> nat \<Rightarrow> real ndarray \<Rightarrow> real \<Rightarrow> fault + (store \<times> nat)" where
  "remove_bad_flow_masks solver h masks flows threshold =
     (case snd (flow_error solver (h masks) flows) of
        Inl e \<Rightarrow> Inl e
      | Inr None \<Rightarrow> Inl TypeError
      | Inr (Some (merrors, dP_masks)) \<Rightarrow>
          let badi = map (\<lambda>k. 1 + int k) (filter (\<lambda>k. merrors ! k > threshold) [0..<length merrors]);
              m = h masks
          in Inr (h(masks := m\<lparr>data := map (\<lambda>v. if v \<in> set badi then 0 else v) (data m)\<rparr>), masks))"

text \<open>The instances of a label image: its labels other than the background 0.\<close>

definition instances :: "int ndarray \<Rightarrow> int set" where
  "instances m = set (data m) - {0}"

text \<open>
  What the filter needs of the flows derived from a label image: one plane per axis, of
  the size of the image, and every component within \<open>[-1, 1]\<close> (the derived field is
  normalised).
\<close>

definition unit_flow :: "(int ndarray \<Rightarrow> real ndarray) \<Rightarrow> bool" where
  "unit_flow solver =
     (\<forall>m. shape (solver m) = length (shape m) # shape m \<and>
          length (data (solver m)) = length (shape m) * length (data m) \<and>
          (\<forall>x \<in> set (data (solver m)). \<bar>x\<bar> \<le> 1))"

section \<open>Seeds of the point-source mode (\<^verbatim>\<open>masks_to_flows_torch\<close>, \<^verbatim>\<open>not omni\<close>)\<close>

text \<open>\<^verbatim>\<open>np.median\<close> of a non-empty list and \<^verbatim>\<open>np.argmin\<close> (the first minimum).\<close>

definition median :: "real list \<Rightarrow> real" where
  "median xs =
     (let s = sort xs; n = length xs
      in if odd n then s ! (n div 2) else (s ! (n div 2 - 1) + s ! (n div 2)) / 2)"

definition argmin :: "real list \<Rightarrow> nat" where
  "argmin xs = hd (filter (\<lambda>j. xs ! j = Min (set xs)) [0..<length xs])"

text \<open>
  \<^verbatim>\<open>scipy.ndimage.center_of_mass(masks_padded, labels=masks_padded, index=i)\<close>, then
  \<^verbatim>\<open>astype(int)\<close>: the weights are the entries of the label image itself.
\<close>

definition center_of_mass :: "int ndarray \<Rightarrow> int \<Rightarrow> nat list" where
  "center_of_mass mp i =
     (let coords = nonzero_where (\<lambda>v. v = i) mp;
          w = real_of_int i
      in map (\<lambda>k. nat (trunc_int (sum_list (map (\<lambda>c. real (c ! k) * w) coords) /
                                  sum_list (map (\<lambda>c. w) coords))))
             [0..<length (shape mp)])"

text \<open>
  The centre of instance \<open>i\<close>: the truncated centre of mass if that pixel carries the
  label \<open>i\<close>; otherwise the body of the loop over \<^verbatim>\<open>np.nonzero(~valid)[0]\<close>, where
  \<^verbatim>\<open>coords\<close> has one row per axis and one column per pixel, and
  \<^verbatim>\<open>np.median(coords, axis=0)\<close> is taken along the rows: one median per pixel, of that
  pixel's own coordinates.  A label without pixels has no centre of mass and the lookup
  \<^verbatim>\<open>masks_padded[tuple(centers)]\<close> fails.
\<close>

definition center_of :: "int ndarray \<Rightarrow> int \<Rightarrow> fault + nat list" where
  "center_of mp i =
     (let coords = nonzero_where (\<lambda>v. v = i) mp
      in if coords = [] then Inl IndexError
         else
           let com = center_of_mass mp i
           in if get mp com = i then Inr com
              else
                let meds = map (\<lambda>c. median (map real c)) coords;
                    imin = argmin (map (\<lambda>j. sum_list (map (\<lambda>x. (real x - meds ! j)\<^sup>2) (coords ! j)))
                                       [0..<length coords])
                in Inr (coords ! imin))"

definition centers :: "int ndarray \<Rightarrow> (fault + nat list) list" where
  "centers mp = map (center_of mp) [1..Max (set (data mp))]"

text \<open>
  The centre as the documentation and the specification word it: the pixel of the
  instance nearest to the median of the coordinates of all its pixels (one median per
  axis), the first one in scan order among equals.
\<close>

definition nearest_to_median :: "int ndarray \<Rightarrow> int \<Rightarrow> nat list" where
  "nearest_to_median mp i =
     (let coords = nonzero_where (\<lambda>v. v = i) mp;
          meds = map (\<lambda>k. median (map (\<lambda>c. real (c ! k)) coords)) [0..<length (shape mp)];
          imin = argmin (map (\<lambda>c. sum_list (map (\<lambda>k. (real (c ! k) - meds ! k)\<^sup>2)
                                                    [0..<length (shape mp)])) coords)
      in coords ! imin)"

section \<open>Following the flows and the orchestrator (\<^verbatim>\<open>follow_flows\<close>, \<^verbatim>\<open>compute_masks\<close>)\<close>

text \<open>
  What a call does besides returning: the messages it logs and the stages it invokes,
  in order.
\<close>

datatype event = Log string | Call string

text \<open>A trajectory: \<^verbatim>\<open>None\<close>, the empty list \<^verbatim>\<open>[]\<close>, or an array.\<close>

datatype trace = NoTrace | EmptyTrace | Trace "real ndarray"

text \<open>
  \<^verbatim>\<open>np.meshgrid(*grid, indexing='ij')\<close> as an array of shape \<open>d # shp\<close>: component
  \<open>k\<close> of the point at a pixel is the pixel's \<open>k\<close>-th coordinate.
\<close>

definition meshgrid :: "nat list \<Rightarrow> real ndarray" where
  "meshgrid shp =
     \<lparr>shape = length shp # shp,
      data = concat (map (\<lambda>k. map (\<lambda>i. real (unravel shp i ! k)) [0..<prod_list shp])
                         [0..<length shp])\<rparr>"

text \<open>
  The integrators are parameters of the model of \<^verbatim>\<open>follow_flows\<close>: each takes the
  points, the flow, the pixels and the number of steps and gives the points and the
  trajectory.
\<close>

record steppers =
  steps2D :: "real ndarray \<Rightarrow> real ndarray \<Rightarrow> nat list list \<Rightarrow> nat \<Rightarrow> bool \<Rightarrow> bool \<Rightarrow> real ndarray \<times> trace"
  steps3D :: "real ndarray \<Rightarrow> real ndarray \<Rightarrow> nat list list \<Rightarrow> nat \<Rightarrow> real ndarray \<times> trace"
  steps_interp :: "real ndarray \<Rightarrow> real ndarray \<Rightarrow> nat list list \<Rightarrow> nat \<Rightarrow> bool \<Rightarrow> bool \<Rightarrow> real ndarray \<times> trace"

text \<open>
  The pixels to advect: the ones supplied, else the non-zero pixels of the mask (in
  \<^verbatim>\<open>omni\<close> mode, when a mask is given), else the pixels where the first flow component
  exceeds \<open>10\<^sup>-\<^sup>3\<close> in absolute value.
\<close>

definition resolve_inds ::
  "real ndarray \<Rightarrow> bool ndarray option \<Rightarrow> nat list list option \<Rightarrow> bool \<Rightarrow> nat list list" where
  "resolve_inds dP msk inds omni =
     (case inds of
        Some given \<Rightarrow> given
      | None \<Rightarrow>
          (case (omni, msk) of
             (True, Some m) \<Rightarrow> nonzero_where (\<lambda>b. b) m
           | _ \<Rightarrow>
               nonzero_where (\<lambda>v. \<bar>v\<bar> > 1 / 1000)
                 \<lparr>shape = tl (shape dP), data = take (prod_list (tl (shape dP))) (data dP)\<rparr>))"

text \<open>
  \<^verbatim>\<open>follow_flows\<close> returns \<^verbatim>\<open>(p, inds, tr)\<close>; the model adds the events.  With
  \<^verbatim>\<open>interp\<close> off and a flow that is neither 2D nor 3D the variable \<^verbatim>\<open>tr\<close> is never
  bound and the \<^verbatim>\<open>return\<close> raises.  In the interpolated branch \<open>steps_interp\<close> stands
  for the call on \<^verbatim>\<open>p[cell_px]\<close> together with writing the result back into \<^verbatim>\<open>p\<close>.
\<close>

definition follow_flows ::
  "steppers \<Rightarrow> real ndarray \<Rightarrow> bool ndarray option \<Rightarrow> nat list list option \<Rightarrow> nat \<Rightarrow> bool \<Rightarrow>
     bool \<Rightarrow> bool \<Rightarrow> event list \<times> (fault + (real ndarray \<times> nat list list \<times> trace))" where
  "follow_flows S dP msk inds niter interp omni calc_trace =
     (let d = hd (shape dP);
          shp = tl (shape dP);
          p = meshgrid shp;
          inds' = resolve_inds dP msk inds omni
      in if length inds' < 5
         then ([Log ''WARNING: no mask pixels found''], Inr (p, inds', NoTrace))
         else if \<not> interp
         then
           (if d = 2
            then ([Log ''WARNING: not interp'', Call ''steps2D''],
                  Inr (fst (steps2D S p dP inds' niter omni calc_trace), inds',
                       snd (steps2D S p dP inds' niter omni calc_trace)))
            else if d = 3
            then ([Log ''WARNING: not interp'', Call ''steps3D''],
                  Inr (fst (steps3D S p dP inds' niter), inds', snd (steps3D S p dP inds' niter)))
            else ([Log ''WARNING: not interp'',
                   Log ''No non-interp code available for non-2D or -3D inputs.''],
                  Inl UnboundLocalError))
         else ([Call ''steps_interp''],
               Inr (fst (steps_interp S p dP inds' niter omni calc_trace), inds',
                    snd (steps_interp S p dP inds' niter omni calc_trace))))"

text \<open>
  The arguments of \<^verbatim>\<open>compute_masks\<close> other than the flow \<^verbatim>\<open>dP\<close> and the potential
  \<^verbatim>\<open>dist\<close>, and the stages it calls that are library code or are modelled
  elsewhere.  \<^verbatim>\<open>verbose\<close> is off.
\<close>

record params =
  bd :: "real ndarray option"
  p :: "real ndarray option"
  inds :: "nat list list option"
  niter :: nat
  mask_threshold :: real
  diam_threshold :: real
  flow_threshold :: "real option"
  interp :: bool
  cluster :: bool
  do_3D :: bool
  min_size :: int
  resize :: "nat list option"
  omni :: bool
  calc_trace :: bool
  nclasses :: nat
  dim :: nat

record stages =
  skimage_enabled :: bool
  apply_hysteresis_threshold :: "real ndarray \<Rightarrow> real \<Rightarrow> real \<Rightarrow> bool ndarray"
  div_rescale :: "real ndarray \<Rightarrow> bool ndarray \<Rightarrow> real ndarray"
  get_masks :: "real ndarray \<Rightarrow> real ndarray option \<Rightarrow> real ndarray \<Rightarrow> bool ndarray \<Rightarrow> nat list list \<Rightarrow>
                nat \<Rightarrow> bool \<Rightarrow> real \<Rightarrow> fault + int ndarray"
  get_masks_cp :: "real ndarray \<Rightarrow> bool ndarray \<Rightarrow> real ndarray \<Rightarrow> fault + int ndarray"
  zoom :: "int ndarray \<Rightarrow> nat list \<Rightarrow> int ndarray"
  fill_holes_and_remove_small_masks :: "int ndarray \<Rightarrow> int \<Rightarrow> nat \<Rightarrow> fault + int ndarray"
  renumber :: "int ndarray \<Rightarrow> int ndarray"

text \<open>The foreground: the hysteresis threshold, or the plain threshold on the potential.\<close>

definition foreground :: "stages \<Rightarrow> params \<Rightarrow> real ndarray \<Rightarrow> bool ndarray" where
  "foreground G A dst =
     (if (omni A \<or> inds A \<noteq> None) \<and> skimage_enabled G
      then apply_hysteresis_threshold G dst (mask_threshold A - 1) (mask_threshold A)
      else \<lparr>shape = shape dst, data = map (\<lambda>v. v > mask_threshold A) (data dst)\<rparr>)"





section \<open>Properties of the Eikonal update\<close>













section \<open>Properties of the field solver's output\<close>

lemma length_scatter: "length (scatter out idx vals) = length out"
proof -
  have "length (fold (\<lambda>iv xs. xs[fst iv := snd iv]) ps out) = length out" for ps
    by (induction ps arbitrary: out) simp_all
  then show ?thesis by (simp add: scatter_def)
qed

lemma scatter_other: "i \<notin> set idx \<Longrightarrow> scatter out idx vals ! i = out ! i"
proof -
  have "i \<notin> fst ` set ps \<Longrightarrow> fold (\<lambda>iv xs. xs[fst iv := snd iv]) ps out ! i = out ! i" for ps
    by (induction ps arbitrary: out) auto
  moreover assume "i \<notin> set idx"
  then have "i \<notin> fst ` set (zip idx vals)" by (auto dest: set_zip_leftD)
  ultimately show ?thesis by (simp add: scatter_def)
qed

lemma ravel_less: "in_shape shp c \<Longrightarrow> ravel shp c < prod_list shp"
  unfolding in_shape_def
proof (induction c shp rule: list_all2_induct)
  case Nil
  then show ?case by simp
next
  case (Cons x c n shp)
  have "x * prod_list shp + ravel shp c < x * prod_list shp + prod_list shp"
    using Cons.IH by simp
  also have "\<dots> = Suc x * prod_list shp" by simp
  also have "\<dots> \<le> n * prod_list shp" using Cons.hyps(1) by (intro mult_le_mono1) simp
  finally show ?case by simp
qed

lemma unravel_ravel: "in_shape shp c \<Longrightarrow> unravel shp (ravel shp c) = c"
  unfolding in_shape_def
proof (induction c shp rule: list_all2_induct)
  case Nil
  then show ?case by simp
next
  case (Cons x c n shp)
  have r: "ravel shp c < prod_list shp"
    using Cons.hyps(2) by (intro ravel_less) (simp add: in_shape_def)
  then show ?case using Cons.IH by simp
qed

lemma concat_rows_nth:
  "\<forall>r \<in> set rows. length r = n \<Longrightarrow> k < length rows \<Longrightarrow> j < n \<Longrightarrow>
     concat rows ! (k * n + j) = rows ! k ! j"
proof (induction rows arbitrary: k)
  case Nil
  then show ?case by simp
next
  case (Cons r rows)
  show ?case
  proof (cases k)
    case 0
    then show ?thesis using Cons.prems by (simp add: nth_append)
  next
    case (Suc k')
    then have "concat rows ! (k' * n + j) = rows ! k' ! j"
      using Cons.IH [of k'] Cons.prems by simp
    then show ?thesis using Suc Cons.prems by (simp add: nth_append)
  qed
qed

text \<open>
  Whatever the diffusion and the normalisation compute, the flow field that
  \<^verbatim>\<open>masks_to_flows_torch\<close> returns is zero, in every component \<open>k\<close>, at every pixel
  \<open>c\<close> of the label image whose label is 0.
\<close>

lemma masks_to_flows_torch_zero_outside:
  assumes res: "masks_to_flows_torch solve masks dists = Inr (mu0, pot)"
    and c: "in_shape (shape masks) c" and bg: "get masks c = 0" and k: "k < hd (shape mu0)"
  shows "get mu0 (k # c) = 0"
proof -
  let ?P = "prod_list (shape masks)"
  let ?r = "ravel (shape masks) c"
  have r: "?r < ?P" using c by (rule ravel_less)
  show ?thesis
  proof (cases "\<exists>v \<in> set (data masks). v \<noteq> 0")
    case False
    then have mu0: "mu0 = zeros (length (shape masks) # shape masks)"
      using res by (simp add: masks_to_flows_torch_def)
    then have "k < length (shape masks)" using k by (simp add: zeros_def)
    then have "Suc k * ?P \<le> length (shape masks) * ?P" by (intro mult_le_mono1) simp
    then have "k * ?P + ?r < length (shape masks) * ?P" using r by simp
    then show ?thesis by (simp add: mu0 zeros_def get_def)
  next
    case True
    let ?mu = "fst (solve (pad1 masks) dists)"
    let ?row = "\<lambda>row. scatter (replicate ?P 0) (nonzero_flat masks) row"
    from True res have ok: "\<not> (\<exists>row \<in> set ?mu. length row \<noteq> length (nonzero_flat masks))"
      by (auto simp: masks_to_flows_torch_def Let_def split: if_splits)
    with True res have mu0: "mu0 = \<lparr>shape = length ?mu # shape masks, data = concat (map ?row ?mu)\<rparr>"
      by (auto simp: masks_to_flows_torch_def Let_def split: if_splits)
    have klen: "k < length ?mu" using k by (simp add: mu0)
    have "?r \<notin> set (nonzero_flat masks)"
      using bg by (simp add: nonzero_flat_def get_def)
    then have z: "?row (?mu ! k) ! ?r = 0"
      using r by (simp add: scatter_other)
    have "concat (map ?row ?mu) ! (k * ?P + ?r) = map ?row ?mu ! k ! ?r"
      using klen r by (intro concat_rows_nth) (auto simp: length_scatter)
    then show ?thesis using klen z by (simp add: mu0 get_def)
  qed
qed

section \<open>The Eikonal iteration never faults\<close>





















lemma length_data_pad1: "length (data (pad1 m)) = prod_list (shape (pad1 m))"
  by (simp add: pad1_def Let_def)





section \<open>Properties of \<^verbatim>\<open>masks_to_flows\<close>\<close>

text \<open>
  Cropping reads the padded array \<open>pad\<close> positions further along every spatial axis, and
  the reflected padding holds the image itself at those positions.
\<close>

lemma get_unpad:
  assumes "in_shape (shape (unpad lead pad arr)) c"
  shows "get (unpad lead pad arr) c = get arr (take lead c @ map (\<lambda>x. x + pad) (drop lead c))"
proof -
  let ?shp = "take lead (shape arr) @ map (slice_len pad) (drop lead (shape arr))"
  have s: "shape (unpad lead pad arr) = ?shp" by (simp add: unpad_def Let_def)
  have c: "in_shape ?shp c" using assms by (simp add: s)
  then have "ravel ?shp c < prod_list ?shp" by (rule ravel_less)
  then show ?thesis
    using unravel_ravel [OF c] by (simp add: unpad_def Let_def get_def)
qed

lemma get_pad_reflect:
  assumes "in_shape (map (\<lambda>n. n + 2 * pad) (shape arr)) c"
  shows "get (pad_reflect pad arr) c =
           get arr (map (\<lambda>xn. reflect_index (snd xn) (int (fst xn) - int pad)) (zip c (shape arr)))"
proof -
  let ?shp = "map (\<lambda>n. n + 2 * pad) (shape arr)"
  have "ravel ?shp c < prod_list ?shp" using assms by (rule ravel_less)
  then show ?thesis
    using unravel_ravel [OF assms] by (simp add: pad_reflect_def Let_def get_def)
qed

lemma reflect_index_inside: "x < n \<Longrightarrow> reflect_index n (int x) = x"
  by (auto simp: reflect_index_def Let_def)

lemma reflect_shifted:
  assumes "in_shape shp c"
  shows "map (\<lambda>xn. reflect_index (snd xn) (int (fst xn) - int pad)) (zip (map (\<lambda>x. x + pad) c) shp) = c"
proof (rule nth_equalityI)
  have l: "length c = length shp" using assms unfolding in_shape_def by (rule list_all2_lengthD)
  then show "length (map (\<lambda>xn. reflect_index (snd xn) (int (fst xn) - int pad))
                 (zip (map (\<lambda>x. x + pad) c) shp)) = length c" by simp
  fix j assume "j < length (map (\<lambda>xn. reflect_index (snd xn) (int (fst xn) - int pad))
                 (zip (map (\<lambda>x. x + pad) c) shp))"
  then have j: "j < length c" using l by simp
  then have "c ! j < shp ! j" using assms l by (simp add: in_shape_def list_all2_conv_all_nth)
  then show "map (\<lambda>xn. reflect_index (snd xn) (int (fst xn) - int pad))
                 (zip (map (\<lambda>x. x + pad) c) shp) ! j = c ! j"
    using j l by (simp add: reflect_index_inside)
qed

lemma in_shape_shifted:
  "in_shape shp c \<Longrightarrow> in_shape (map (\<lambda>n. n + 2 * pad) shp) (map (\<lambda>x. x + pad) c)"
  by (auto simp: in_shape_def list_all2_conv_all_nth)

lemma masks_to_flows_torch_shape:
  assumes "masks_to_flows_torch solve masks dists = Inr (mu0, pot)"
  shows "shape mu0 \<noteq> [] \<and> tl (shape mu0) = shape masks"
  using assms by (auto simp: masks_to_flows_torch_def Let_def zeros_def split: if_splits)

lemma slice_len_0: "slice_len 0 = (\<lambda>n. 0)"
  by (rule ext) (simp add: slice_len_def)

lemma crop_zero_outside:
  assumes t: "masks_to_flows_torch solve (pad_reflect pad masks) dists_pad = Inr (mu0, T0)"
    and ne: "shape masks \<noteq> []"
    and c: "in_shape (tl (shape (unpad 1 pad mu0))) c" and bg: "get masks c = 0"
    and k: "k < hd (shape (unpad 1 pad mu0))"
  shows "get (unpad 1 pad mu0) (k # c) = 0"
proof -
  let ?shp = "map (\<lambda>n. n + 2 * pad) (shape masks)"
  have sp: "shape (pad_reflect pad masks) = ?shp" by (simp add: pad_reflect_def Let_def)
  from masks_to_flows_torch_shape [OF t] obtain d0 where s0: "shape mu0 = d0 # ?shp"
    by (cases "shape mu0") (auto simp: sp)
  have su: "shape (unpad 1 pad mu0) = d0 # map (slice_len pad) ?shp"
    by (simp add: unpad_def Let_def s0)
  have pad: "0 < pad"
  proof (rule ccontr)
    assume "\<not> 0 < pad"
    moreover from c have "in_shape (map (slice_len pad) ?shp) c" unfolding su by simp
    ultimately have "list_all2 (\<lambda>x n. x < n) c (map (\<lambda>n. 0) (shape masks))"
      by (simp add: in_shape_def slice_len_0)
    then show False using ne by (cases "shape masks") (auto simp: list_all2_Cons2)
  qed
  then have crop: "map (slice_len pad) ?shp = shape masks"
    by (simp add: slice_len_def comp_def)
  from c have cin: "in_shape (shape masks) c" unfolding su crop by simp
  from k have kd: "k < d0" unfolding su by simp
  have "in_shape (shape (unpad 1 pad mu0)) (k # c)"
    unfolding su crop using cin kd by (simp add: in_shape_def)
  then have "get (unpad 1 pad mu0) (k # c) = get mu0 (k # map (\<lambda>x. x + pad) c)"
    by (simp add: get_unpad)
  also have "\<dots> = 0"
  proof (rule masks_to_flows_torch_zero_outside [OF t])
    show "in_shape (shape (pad_reflect pad masks)) (map (\<lambda>x. x + pad) c)"
      unfolding sp using cin by (rule in_shape_shifted)
    have "get (pad_reflect pad masks) (map (\<lambda>x. x + pad) c) = get masks c"
      using in_shape_shifted [OF cin, of pad] by (simp add: get_pad_reflect reflect_shifted [OF cin])
    then show "get (pad_reflect pad masks) (map (\<lambda>x. x + pad) c) = 0" using bg by simp
    show "k < hd (shape mu0)" using kd by (simp add: s0)
  qed
  finally show ?thesis .
qed

lemma masks_to_flows_zero_outside:
  assumes res: "masks_to_flows diameters solve masks dists om = Inr (masks', dists', T, mu)"
    and ne: "shape masks \<noteq> []"
    and c: "in_shape (tl (shape mu)) c" and bg: "get masks c = 0" and k: "k < hd (shape mu)"
  shows "masks' = masks \<and> get mu (k # c) = 0"
proof (cases om)
  case True
  show ?thesis
  proof (cases "diameters masks")
    case (Inl e)
    then show ?thesis using res True by (simp add: masks_to_flows_def)
  next
    case (Inr dm)
    let ?pad = "nat (trunc_int dm)"
    show ?thesis
    proof (cases "masks_to_flows_torch solve (pad_reflect ?pad masks) (pad_reflect ?pad dists)")
      case (Inl e)
      then show ?thesis using res True Inr by (simp add: masks_to_flows_def Let_def)
    next
      case r: (Inr r)
      obtain mu0 T0 where r': "r = (mu0, T0)" by (cases r)
      have mu: "mu = unpad 1 ?pad mu0" and m: "masks' = masks"
        using res True Inr r r' by (simp_all add: masks_to_flows_def Let_def)
      have "get (unpad 1 ?pad mu0) (k # c) = 0"
        using r [unfolded r'] ne c bg k unfolding mu by (rule crop_zero_outside)
      then show ?thesis using mu m by simp
    qed
  qed
next
  case False
  with res have t: "masks_to_flows_torch solve masks dists = Inr (mu, T)" and m: "masks' = masks"
    by (cases "masks_to_flows_torch solve masks dists"; auto simp: masks_to_flows_def)+
  have "in_shape (shape masks) c" using c masks_to_flows_torch_shape [OF t] by simp
  then have "get mu (k # c) = 0" using bg k by (rule masks_to_flows_torch_zero_outside [OF t])
  then show ?thesis using m by simp
qed

text \<open>
  Claim C2.  The flow field returned by the field solver \<^verbatim>\<open>masks_to_flows_torch\<close>, and
  the one returned by its caller \<^verbatim>\<open>masks_to_flows\<close> after the reflected padding and the
  cropping, is zero in every component \<open>k\<close> at every pixel \<open>c\<close> whose label is 0,
  whatever the diffusion and the normalisation compute.
\<close>

theorem flow_zero_outside_foreground:
  "(masks_to_flows_torch solve masks dists = Inr (mu0, pot) \<longrightarrow>
      in_shape (shape masks) c \<longrightarrow> get masks c = 0 \<longrightarrow> k < hd (shape mu0) \<longrightarrow>
      get mu0 (k # c) = 0) \<and>
   (masks_to_flows diameters solve masks dists om = Inr (masks', dists', T, mu) \<longrightarrow>
      shape masks \<noteq> [] \<longrightarrow> in_shape (tl (shape mu)) c \<longrightarrow> get masks c = 0 \<longrightarrow>
      k < hd (shape mu) \<longrightarrow> masks' = masks \<and> get mu (k # c) = 0)"
  using masks_to_flows_torch_zero_outside [of solve masks dists mu0 pot c k]
    masks_to_flows_zero_outside [of diameters solve masks dists om masks' dists' T mu c k]
  by blast

theorem flow_zero_outside_foreground_witness:
  "masks_to_flows_torch
     (\<lambda>m ds. ([map (\<lambda>v. 1) (filter (\<lambda>v. v \<noteq> 0) (data m)),
                map (\<lambda>v. - 1) (filter (\<lambda>v. v \<noteq> 0) (data m))], zeros (shape m)))
     \<lparr>shape = [2, 2], data = [3, 0, 3, 7 :: int]\<rparr> \<lparr>shape = [2, 2], data = [1, 0, 1, 1 :: real]\<rparr> =
     Inr (\<lparr>shape = [2, 2, 2], data = [1, 0, 1, 1, - 1, 0, - 1, - 1 :: real]\<rparr>, zeros [2, 2]) \<and>
   masks_to_flows (\<lambda>m. Inr 1)
     (\<lambda>m ds. ([map (\<lambda>v. 1) (filter (\<lambda>v. v \<noteq> 0) (data m)),
                map (\<lambda>v. - 1) (filter (\<lambda>v. v \<noteq> 0) (data m))], zeros (shape m)))
     \<lparr>shape = [2, 2], data = [3, 0, 3, 7 :: int]\<rparr> \<lparr>shape = [2, 2], data = [1, 0, 1, 1 :: real]\<rparr> True =
     Inr (\<lparr>shape = [2, 2], data = [3, 0, 3, 7 :: int]\<rparr>, \<lparr>shape = [2, 2], data = [1, 0, 1, 1 :: real]\<rparr>, zeros [2, 2], \<lparr>shape = [2, 2, 2], data = [1, 0, 1, 1, - 1, 0, - 1, - 1 :: real]\<rparr>) \<and>
   shape \<lparr>shape = [2, 2], data = [3, 0, 3, 7 :: int]\<rparr> \<noteq> [] \<and>
   in_shape [2, 2] [0, 1] \<and> get \<lparr>shape = [2, 2], data = [3, 0, 3, 7 :: int]\<rparr> [0, 1] = 0 \<and>
   (1 :: nat) < hd (shape \<lparr>shape = [2, 2, 2], data = [1, 0, 1, 1, - 1, 0, - 1, - 1 :: real]\<rparr>) \<and>
   get \<lparr>shape = [2, 2, 2], data = [1, 0, 1, 1, - 1, 0, - 1, - 1 :: real]\<rparr> [1, 0, 1] = 0"
proof -
  let ?S = "(\<lambda>m ds. ([map (\<lambda>v. 1) (filter (\<lambda>v. v \<noteq> 0) (data m)),
                map (\<lambda>v. - 1) (filter (\<lambda>v. v \<noteq> 0) (data m))], zeros (shape m)))"
  let ?M = "\<lparr>shape = [2, 2], data = [3, 0, 3, 7 :: int]\<rparr>"
  let ?D = "\<lparr>shape = [2, 2], data = [1, 0, 1, 1 :: real]\<rparr>"
  let ?MU = "\<lparr>shape = [2, 2, 2], data = [1, 0, 1, 1, - 1, 0, - 1, - 1 :: real]\<rparr>"
  have r1: "masks_to_flows_torch ?S ?M ?D = Inr (?MU, zeros [2, 2])"
    by code_simp
  have r2: "masks_to_flows (\<lambda>m. Inr 1) ?S ?M ?D True = Inr (?M, ?D, zeros [2, 2], ?MU)"
    by code_simp
  have ne: "shape ?M \<noteq> []" by simp
  have c1: "in_shape (shape ?M) [0, 1]" and c2: "in_shape (tl (shape ?MU)) [0, 1]"
    by (simp_all add: in_shape_def)
  have g: "get ?M [0, 1] = 0" by (simp add: get_def)
  have k: "(1 :: nat) < hd (shape ?MU)" by simp
  have "get ?MU [1, 0, 1] = 0"
    using flow_zero_outside_foreground [THEN conjunct1, rule_format, OF r1 c1 g k] .
  moreover have "?M = ?M \<and> get ?MU [1, 0, 1] = 0"
    using flow_zero_outside_foreground [THEN conjunct2, rule_format, OF r2 ne c2 g k] .
  ultimately show ?thesis using r1 r2 ne c1 g k by simp
qed

section \<open>The clustering branch\<close>

text \<open>
  Claim C4, evaluated.  Four foreground pixels of a \<open>2 \<times> 3\<close> image that stay where they
  are: \<open>(0,0)\<close>, \<open>(0,1)\<close>, \<open>(1,0)\<close> form one cluster (the first has three points within
  \<open>4/3\<close>), \<open>(1,2)\<close> is farther than \<open>4/3\<close> from all of them and is noise, so the
  clustering labels them \<open>0, 0, 0, -1\<close>.  With a single noise point the snapping block
  is skipped (the neighbour search is not even called: here it would raise), and the
  pixel \<open>(1,2)\<close> is left with label 0 in the output.
\<close>

theorem get_masks_cluster_single_outlier_unlabelled:
  "get_masks_cluster (\<lambda>eps min_samples points. [0, 0, 0, - 1]) (\<lambda>n points queries. Inl ValueError)
     (4 / 3) [2, 3] [[0, 0], [0, 1], [1, 0], [1, 2]] [[0, 0], [0, 1], [1, 0], [1, 2]] =
   Inr \<lparr>shape = [2, 3], data = [1, 1, 0, 1, 0, 0]\<rparr>"
  by code_simp

text \<open>With two noise points and a neighbour search that succeeds, both are relabelled.\<close>

lemma get_masks_cluster_two_outliers:
  "get_masks_cluster (\<lambda>eps min_samples points. [0, 0, 0, - 1, - 1])
     (\<lambda>n points queries. Inr [[3, 2, 1, 0, 4], [4, 3, 2, 1, 0]])
     (4 / 3) [2, 3] [[0, 0], [0, 1], [1, 0], [1, 1], [1, 2]]
     [[0, 0], [0, 1], [1, 0], [5, 5], [9, 9]] =
   Inr \<lparr>shape = [2, 3], data = [1, 1, 0, 1, 1, 1]\<rparr>"
  by code_simp

section \<open>Properties of the interpolated advection\<close>









section \<open>Properties of the consistency filter\<close>

lemma unique_inverse_0235: "unique_inverse [0, 2, 3, 5] = [0, 1, 2, 3]"
  by (simp add: unique_inverse_def unique_def)

lemma unique_inverse_0205: "unique_inverse [0, 2, 0, 5] = [0, 1, 0, 2]"
  by (simp add: unique_inverse_def unique_def)

lemma upto13: "[1..3] = [1, 2, 3::int]"
  by (simp add: upto_rec1)

lemma upto12: "[1..2] = [1, 2::int]"
  by (simp add: upto_rec1)

lemma upt02: "[0..<2] = [0, 1]"
  by (simp add: numeral_2_eq_2)

lemma flow_error_first:
  assumes "solver \<lparr>shape = [2, 2], data = [0, 1, 2, 3]\<rparr> =
             \<lparr>shape = [2, 2, 2], data = [a0, a1, a2, a3, b0, b1, b2, b3]\<rparr>"
  shows "snd (flow_error solver \<lparr>shape = [2, 2], data = [0, 2, 3, 5]\<rparr>
                \<lparr>shape = [2, 2, 2], data = [0, 0, 0, 100, 0, 0, 0, 100]\<rparr>) =
         Inr (Some ([a1\<^sup>2 + b1\<^sup>2, a2\<^sup>2 + b2\<^sup>2, (a3 - 20)\<^sup>2 + (b3 - 20)\<^sup>2],
                    \<lparr>shape = [2, 2, 2], data = [a0, a1, a2, a3, b0, b1, b2, b3]\<rparr>))"
  using assms
  by (simp add: flow_error_def Let_def unique_inverse_0235 upto13 plane_def label_mean_def upt02)

lemma flow_error_second:
  assumes "solver \<lparr>shape = [2, 2], data = [0, 1, 0, 2]\<rparr> =
             \<lparr>shape = [2, 2, 2], data = [a0, a1, a2, a3, b0, b1, b2, b3]\<rparr>"
  shows "snd (flow_error solver \<lparr>shape = [2, 2], data = [0, 2, 0, 5]\<rparr>
                \<lparr>shape = [2, 2, 2], data = [0, 0, 0, 100, 0, 0, 0, 100]\<rparr>) =
         Inr (Some ([a1\<^sup>2 + b1\<^sup>2, (a3 - 20)\<^sup>2 + (b3 - 20)\<^sup>2],
                    \<lparr>shape = [2, 2, 2], data = [a0, a1, a2, a3, b0, b1, b2, b3]\<rparr>))"
  using assms
  by (simp add: flow_error_def Let_def unique_inverse_0205 upto12 plane_def label_mean_def upt02)

lemma list8:
  "length xs = 8 \<Longrightarrow> \<exists>a0 a1 a2 a3 b0 b1 b2 b3. xs = [a0, a1, a2, a3, b0, b1, b2, b3]"
  by (auto simp: numeral_eq_Suc length_Suc_conv)

lemma unit_flow_2x2:
  assumes "unit_flow solver"
  obtains a0 a1 a2 a3 b0 b1 b2 b3 where
    "solver \<lparr>shape = [2, 2], data = [x0, x1, x2, x3]\<rparr> =
       \<lparr>shape = [2, 2, 2], data = [a0, a1, a2, a3, b0, b1, b2, b3]\<rparr>"
    "\<bar>a1\<bar> \<le> 1" "\<bar>a2\<bar> \<le> 1" "\<bar>a3\<bar> \<le> 1" "\<bar>b1\<bar> \<le> 1" "\<bar>b2\<bar> \<le> 1" "\<bar>b3\<bar> \<le> 1"
proof -
  let ?m = "\<lparr>shape = [2, 2], data = [x0, x1, x2, x3]\<rparr>"
  from assms have s: "shape (solver ?m) = [2, 2, 2]" and l: "length (data (solver ?m)) = 8"
    and b: "\<forall>x \<in> set (data (solver ?m)). \<bar>x\<bar> \<le> 1"
    unfolding unit_flow_def by (simp_all del: One_nat_def)
  from list8 [OF l] obtain a0 a1 a2 a3 b0 b1 b2 b3
    where d: "data (solver ?m) = [a0, a1, a2, a3, b0, b1, b2, b3]" by blast
  have "solver ?m = \<lparr>shape = [2, 2, 2], data = [a0, a1, a2, a3, b0, b1, b2, b3]\<rparr>"
    using s d by (cases "solver ?m") simp
  moreover have "\<bar>a1\<bar> \<le> 1" "\<bar>a2\<bar> \<le> 1" "\<bar>a3\<bar> \<le> 1" "\<bar>b1\<bar> \<le> 1" "\<bar>b2\<bar> \<le> 1" "\<bar>b3\<bar> \<le> 1"
    using b unfolding d by simp_all
  ultimately show ?thesis by (rule that)
qed

lemma small_error: "\<bar>a\<bar> \<le> 1 \<Longrightarrow> \<bar>b\<bar> \<le> 1 \<Longrightarrow> \<not> 2 < a\<^sup>2 + b\<^sup>2" for a b :: real
proof -
  assume "\<bar>a\<bar> \<le> 1" "\<bar>b\<bar> \<le> 1"
  then have "a\<^sup>2 \<le> 1" "b\<^sup>2 \<le> 1" by (simp_all add: abs_square_le_1)
  then show ?thesis by linarith
qed

lemma large_error: "\<bar>a\<bar> \<le> 1 \<Longrightarrow> \<bar>b\<bar> \<le> 1 \<Longrightarrow> 2 < (a - 20)\<^sup>2 + (b - 20)\<^sup>2" for a b :: real
proof -
  assume a: "\<bar>a\<bar> \<le> 1" and b: "\<bar>b\<bar> \<le> 1"
  have "19\<^sup>2 \<le> (20 - a)\<^sup>2" using a by (intro power_mono) auto
  moreover have "19\<^sup>2 \<le> (20 - b)\<^sup>2" using b by (intro power_mono) auto
  moreover have "(20 - a)\<^sup>2 = (a - 20)\<^sup>2" "(20 - b)\<^sup>2 = (b - 20)\<^sup>2"
    by (simp_all add: power2_commute)
  ultimately show ?thesis by simp
qed

lemma badi3:
  "\<not> t < e1 \<Longrightarrow> \<not> t < e2 \<Longrightarrow> t < e3 \<Longrightarrow>
     map (\<lambda>k. 1 + int k) (filter (\<lambda>k. [e1, e2, e3] ! k > t) [0..<length [e1, e2, e3]]) = [3]"
  for t :: real
  by (simp add: upt_rec)

lemma badi2:
  "\<not> t < e1 \<Longrightarrow> t < e2 \<Longrightarrow>
     map (\<lambda>k. 1 + int k) (filter (\<lambda>k. [e1, e2] ! k > t) [0..<length [e1, e2]]) = [2]"
  for t :: real
  by (simp add: upt_rec)

lemma remove_bad_flow_masks_from_errors:
  assumes "snd (flow_error solver (h a) flows) = Inr (Some (merrors, dP_masks))"
    and "map (\<lambda>k. 1 + int k) (filter (\<lambda>k. merrors ! k > thr) [0..<length merrors]) = badi"
  shows "remove_bad_flow_masks solver h a flows thr =
           Inr (h(a := (h a)\<lparr>data := map (\<lambda>v. if v \<in> set badi then 0 else v) (data (h a))\<rparr>), a)"
  unfolding assms(2) [symmetric] using assms(1)
  by (simp add: remove_bad_flow_masks_def Let_def)

lemma first_pass_2x2:
  assumes u: "unit_flow solver" and h: "h a = \<lparr>shape = [2, 2], data = [0, 2, 3, 5]\<rparr>"
  shows "remove_bad_flow_masks solver h a \<lparr>shape = [2, 2, 2], data = [0, 0, 0, 100, 0, 0, 0, 100]\<rparr> 2 =
           Inr (h(a := \<lparr>shape = [2, 2], data = [0, 2, 0, 5]\<rparr>), a)"
proof -
  from unit_flow_2x2 [OF u, of 0 1 2 3] obtain a0 a1 a2 a3 b0 b1 b2 b3 where
    s: "solver \<lparr>shape = [2, 2], data = [0, 1, 2, 3]\<rparr> =
       \<lparr>shape = [2, 2, 2], data = [a0, a1, a2, a3, b0, b1, b2, b3]\<rparr>"
    and b: "\<bar>a1\<bar> \<le> 1" "\<bar>a2\<bar> \<le> 1" "\<bar>a3\<bar> \<le> 1" "\<bar>b1\<bar> \<le> 1" "\<bar>b2\<bar> \<le> 1" "\<bar>b3\<bar> \<le> 1"
    by blast
  show ?thesis
    using remove_bad_flow_masks_from_errors [of solver h a, unfolded h,
        OF flow_error_first [where solver = solver, OF s]
           badi3 [OF small_error [OF b(1) b(4)] small_error [OF b(2) b(5)] large_error [OF b(3) b(6)]]]
    by simp
qed

lemma second_pass_2x2:
  assumes u: "unit_flow solver" and h: "h a = \<lparr>shape = [2, 2], data = [0, 2, 0, 5]\<rparr>"
  shows "remove_bad_flow_masks solver h a \<lparr>shape = [2, 2, 2], data = [0, 0, 0, 100, 0, 0, 0, 100]\<rparr> 2 =
           Inr (h(a := \<lparr>shape = [2, 2], data = [0, 0, 0, 5]\<rparr>), a)"
proof -
  from unit_flow_2x2 [OF u, of 0 1 0 2] obtain a0 a1 a2 a3 b0 b1 b2 b3 where
    s: "solver \<lparr>shape = [2, 2], data = [0, 1, 0, 2]\<rparr> =
       \<lparr>shape = [2, 2, 2], data = [a0, a1, a2, a3, b0, b1, b2, b3]\<rparr>"
    and b: "\<bar>a1\<bar> \<le> 1" "\<bar>a2\<bar> \<le> 1" "\<bar>a3\<bar> \<le> 1" "\<bar>b1\<bar> \<le> 1" "\<bar>b2\<bar> \<le> 1" "\<bar>b3\<bar> \<le> 1"
    by blast
  show ?thesis
    using remove_bad_flow_masks_from_errors [of solver h a, unfolded h,
        OF flow_error_second [where solver = solver, OF s]
           badi2 [OF small_error [OF b(1) b(4)] large_error [OF b(3) b(6)]]]
    by simp
qed

text \<open>
  The filter works in place: it returns the address it was given and changes no other
  array of the store, nor the shape of the array.  It removes labels only.
\<close>

lemma remove_bad_flow_masks_in_place:
  assumes "remove_bad_flow_masks solver h masks flows thr = Inr (h', r)"
  shows "r = masks \<and> (\<forall>b. b \<noteq> masks \<longrightarrow> h' b = h b) \<and> shape (h' masks) = shape (h masks)"
  using assms
  by (auto simp: remove_bad_flow_masks_def Let_def split: sum.splits option.splits prod.splits)

lemma remove_bad_flow_masks_instances_subset:
  assumes "remove_bad_flow_masks solver h masks flows thr = Inr (h', r)"
  shows "instances (h' r) \<subseteq> instances (h masks) \<and> card (instances (h' r)) \<le> card (instances (h masks))"
proof -
  have sub: "instances (h' r) \<subseteq> instances (h masks)"
    using assms
    by (auto simp: remove_bad_flow_masks_def Let_def instances_def
             split: sum.splits option.splits prod.splits if_splits)
  have "finite (instances (h masks))" by (simp add: instances_def)
  then show ?thesis using sub by (simp add: card_mono)
qed

lemma remove_bad_flow_masks_mismatch:
  "drop 1 (shape flows) \<noteq> shape (h masks) \<Longrightarrow>
     remove_bad_flow_masks solver h masks flows thr = Inl TypeError"
  by (simp add: remove_bad_flow_masks_def flow_error_def)

text \<open>
  On a label image whose labels are exactly \<open>0, \<dots>, K\<close> the renumbering of
  \<^verbatim>\<open>flow_error\<close> changes nothing, there is one error per label, and the filter removes
  exactly the labels whose error exceeds the threshold.
\<close>

lemma unique_dense:
  assumes "set xs = {0..K}"
  shows "unique xs = [0..K]"
proof -
  have "sorted (unique xs)" "distinct (unique xs)" "set (unique xs) = {0..K}"
    using assms by (simp_all add: unique_def)
  moreover have "sorted [0..K]" "distinct [0..K]" "set [0..K] = {0..K}" by simp_all
  ultimately show ?thesis by (metis sorted_distinct_set_unique)
qed

lemma takeWhile_upto: "0 \<le> v \<Longrightarrow> v \<le> K \<Longrightarrow> takeWhile (\<lambda>u. u \<noteq> v) [0..K] = [0..v - 1]"
proof -
  assume v: "0 \<le> v" "v \<le> K"
  then have split: "[0..K] = [0..v - 1] @ v # [v + 1..K]" by (rule upto_split3)
  have "takeWhile (\<lambda>u. u \<noteq> v) ([0..v - 1] @ v # [v + 1..K]) =
        [0..v - 1] @ takeWhile (\<lambda>u. u \<noteq> v) (v # [v + 1..K])"
    by (rule takeWhile_append2) auto
  then show ?thesis unfolding split [symmetric] by simp
qed

lemma unique_inverse_dense:
  assumes "set xs = {0..K}"
  shows "unique_inverse xs = xs"
proof -
  have "int (length (takeWhile (\<lambda>u. u \<noteq> v) [0..K])) = v" if "v \<in> set xs" for v
  proof -
    from that assms have v: "0 \<le> v" "v \<le> K" by auto
    then show ?thesis by (simp add: takeWhile_upto)
  qed
  then show ?thesis
    unfolding unique_inverse_def unique_dense [OF assms] by (simp add: map_idI)
qed

lemma flow_error_length_dense:
  assumes "set (data m) = {0..K}" and "0 \<le> K"
    and "snd (flow_error solver m flows) = Inr (Some (merrors, dP_masks))"
  shows "length merrors = nat K"
proof -
  have "Max (set (unique_inverse (data m))) = K"
    unfolding unique_inverse_dense [OF assms(1)] assms(1)
    using assms(2) by (intro Max_eqI) auto
  then show ?thesis
    using assms(3) by (auto simp: flow_error_def Let_def split: if_splits)
qed

lemma remove_bad_flow_masks_dense:
  assumes dense: "set (data (h a)) = {0..K}" and K: "0 \<le> K"
    and res: "remove_bad_flow_masks solver h a flows thr = Inr (h', r)"
  shows "\<exists>merrors dP_masks.
           snd (flow_error solver (h a) flows) = Inr (Some (merrors, dP_masks)) \<and>
           length merrors = nat K \<and>
           data (h' a) =
             map (\<lambda>v. if 1 \<le> v \<and> thr < merrors ! nat (v - 1) then 0 else v) (data (h a))"
proof -
  from res obtain merrors dP_masks
    where fe: "snd (flow_error solver (h a) flows) = Inr (Some (merrors, dP_masks))"
    by (auto simp: remove_bad_flow_masks_def split: sum.splits option.splits)
  have len: "length merrors = nat K" using dense K fe by (rule flow_error_length_dense)
  let ?badi = "map (\<lambda>k. 1 + int k) (filter (\<lambda>k. merrors ! k > thr) [0..<length merrors])"
  have h': "h' = h(a := (h a)\<lparr>data := map (\<lambda>v. if v \<in> set ?badi then 0 else v) (data (h a))\<rparr>)"
    using remove_bad_flow_masks_from_errors [where solver = solver and h = h and a = a, OF fe refl, of thr]
      res by simp
  have "(v \<in> set ?badi) = (1 \<le> v \<and> thr < merrors ! nat (v - 1))" if "v \<in> set (data (h a))" for v
  proof
    assume "v \<in> set ?badi"
    then obtain k where "k < length merrors" "thr < merrors ! k" "v = 1 + int k" by auto
    then show "1 \<le> v \<and> thr < merrors ! nat (v - 1)" by simp
  next
    assume v: "1 \<le> v \<and> thr < merrors ! nat (v - 1)"
    from that dense have "v \<le> K" by auto
    then have "nat (v - 1) < length merrors" using v len by simp
    moreover have "v = 1 + int (nat (v - 1))" using v by simp
    ultimately show "v \<in> set ?badi" using v by (auto simp: image_iff)
  qed
  then have "map (\<lambda>v. if v \<in> set ?badi then 0 else v) (data (h a)) =
        map (\<lambda>v. if 1 \<le> v \<and> thr < merrors ! nat (v - 1) then 0 else v) (data (h a))"
    by (intro map_cong) simp_all
  then show ?thesis using fe len h' by simp
qed

text \<open>
  Claim C6, evaluated.  The label image \<open>[[0, 2], [3, 5]]\<close>, a net flow that is zero on
  the instances 2 and 3 and \<open>(100, 100)\<close> on the instance 5, and the threshold 2.
  Whatever flows the solver derives (each component within \<open>[-1, 1]\<close>), the first pass
  leaves the instances 2 and 5 and a second pass on that output removes the instance 2:
  re-filtering is not a no-op.
\<close>

theorem remove_bad_flow_masks_second_pass_removes:
  assumes "unit_flow solver" and "h a = \<lparr>shape = [2, 2], data = [0, 2, 3, 5]\<rparr>"
  shows "\<exists>h1 h2.
           remove_bad_flow_masks solver h a
             \<lparr>shape = [2, 2, 2], data = [0, 0, 0, 100, 0, 0, 0, 100]\<rparr> 2 = Inr (h1, a) \<and>
           remove_bad_flow_masks solver h1 a
             \<lparr>shape = [2, 2, 2], data = [0, 0, 0, 100, 0, 0, 0, 100]\<rparr> 2 = Inr (h2, a) \<and>
           instances (h1 a) = {2, 5} \<and> instances (h2 a) = {5}"
proof -
  let ?h1 = "h(a := \<lparr>shape = [2, 2], data = [0, 2, 0, 5]\<rparr>)"
  let ?h2 = "?h1(a := \<lparr>shape = [2, 2], data = [0, 0, 0, 5]\<rparr>)"
  have 1: "remove_bad_flow_masks solver h a
             \<lparr>shape = [2, 2, 2], data = [0, 0, 0, 100, 0, 0, 0, 100]\<rparr> 2 = Inr (?h1, a)"
    using assms by (rule first_pass_2x2)
  have 2: "remove_bad_flow_masks solver ?h1 a
             \<lparr>shape = [2, 2, 2], data = [0, 0, 0, 100, 0, 0, 0, 100]\<rparr> 2 = Inr (?h2, a)"
    using assms(1) by (rule second_pass_2x2) simp
  have "instances (?h1 a) = {2, 5}" "instances (?h2 a) = {5}"
    by (auto simp: instances_def)
  with 1 2 show ?thesis by blast
qed

lemma unit_flow_zero:
  "unit_flow (\<lambda>m. \<lparr>shape = length (shape m) # shape m,
                       data = replicate (length (shape m) * length (data m)) 0\<rparr>)"
  by (simp add: unit_flow_def)

theorem remove_bad_flow_masks_second_pass_removes_witness:
  "unit_flow (\<lambda>m. \<lparr>shape = length (shape m) # shape m,
                       data = replicate (length (shape m) * length (data m)) 0\<rparr>) \<and>
   (\<exists>h1 h2.
      remove_bad_flow_masks
        (\<lambda>m. \<lparr>shape = length (shape m) # shape m,
                 data = replicate (length (shape m) * length (data m)) 0\<rparr>)
        (\<lambda>b. \<lparr>shape = [2, 2], data = [0, 2, 3, 5]\<rparr>) 0
        \<lparr>shape = [2, 2, 2], data = [0, 0, 0, 100, 0, 0, 0, 100]\<rparr> 2 = Inr (h1, 0) \<and>
      remove_bad_flow_masks
        (\<lambda>m. \<lparr>shape = length (shape m) # shape m,
                 data = replicate (length (shape m) * length (data m)) 0\<rparr>)
        h1 0 \<lparr>shape = [2, 2, 2], data = [0, 0, 0, 100, 0, 0, 0, 100]\<rparr> 2 = Inr (h2, 0) \<and>
      instances (h1 0) = {2, 5} \<and> instances (h2 0) = {5})"
  using remove_bad_flow_masks_second_pass_removes [OF unit_flow_zero,
      of "\<lambda>b. \<lparr>shape = [2, 2], data = [0, 2, 3, 5]\<rparr>" 0]
    unit_flow_zero
  by simp

text \<open>
  Claim C10, evaluated on the same input.  The second instance in label order (label 3)
  has a flow error within the threshold and the third (label 5) one above it; the
  filter returns the array it was given, with the pixel of label 3 set to 0 and the
  pixel of label 5 kept.
\<close>

theorem remove_bad_flow_masks_drops_consistent_instance:
  assumes "unit_flow solver" and "h a = \<lparr>shape = [2, 2], data = [0, 2, 3, 5]\<rparr>"
  shows "\<exists>e1 e2 e3 dP_masks h'.
           snd (flow_error solver (h a) \<lparr>shape = [2, 2, 2], data = [0, 0, 0, 100, 0, 0, 0, 100]\<rparr>) =
             Inr (Some ([e1, e2, e3], dP_masks)) \<and>
           e1 \<le> 2 \<and> e2 \<le> 2 \<and> 2 < e3 \<and>
           remove_bad_flow_masks solver h a
             \<lparr>shape = [2, 2, 2], data = [0, 0, 0, 100, 0, 0, 0, 100]\<rparr> 2 = Inr (h', a) \<and>
           data (h' a) = [0, 2, 0, 5]"
proof -
  from unit_flow_2x2 [OF assms(1), of 0 1 2 3] obtain a0 a1 a2 a3 b0 b1 b2 b3 where
    s: "solver \<lparr>shape = [2, 2], data = [0, 1, 2, 3]\<rparr> =
       \<lparr>shape = [2, 2, 2], data = [a0, a1, a2, a3, b0, b1, b2, b3]\<rparr>"
    and b: "\<bar>a1\<bar> \<le> 1" "\<bar>a2\<bar> \<le> 1" "\<bar>a3\<bar> \<le> 1" "\<bar>b1\<bar> \<le> 1" "\<bar>b2\<bar> \<le> 1" "\<bar>b3\<bar> \<le> 1"
    by blast
  have "snd (flow_error solver (h a) \<lparr>shape = [2, 2, 2], data = [0, 0, 0, 100, 0, 0, 0, 100]\<rparr>) =
          Inr (Some ([a1\<^sup>2 + b1\<^sup>2, a2\<^sup>2 + b2\<^sup>2, (a3 - 20)\<^sup>2 + (b3 - 20)\<^sup>2],
                     \<lparr>shape = [2, 2, 2], data = [a0, a1, a2, a3, b0, b1, b2, b3]\<rparr>))"
    unfolding assms(2) using s by (rule flow_error_first)
  moreover have "a1\<^sup>2 + b1\<^sup>2 \<le> 2" "a2\<^sup>2 + b2\<^sup>2 \<le> 2" "2 < (a3 - 20)\<^sup>2 + (b3 - 20)\<^sup>2"
    using small_error [OF b(1) b(4)] small_error [OF b(2) b(5)] large_error [OF b(3) b(6)]
    by simp_all
  moreover have "remove_bad_flow_masks solver h a
             \<lparr>shape = [2, 2, 2], data = [0, 0, 0, 100, 0, 0, 0, 100]\<rparr> 2 =
           Inr (h(a := \<lparr>shape = [2, 2], data = [0, 2, 0, 5]\<rparr>), a)"
    using assms by (rule first_pass_2x2)
  moreover have "data ((h(a := \<lparr>shape = [2, 2], data = [0, 2, 0, 5]\<rparr>)) a) = [0, 2, 0, 5]"
    by simp
  ultimately show ?thesis by blast
qed

theorem remove_bad_flow_masks_drops_consistent_instance_witness:
  "\<exists>e1 e2 e3 dP_masks h'.
     snd (flow_error
            (\<lambda>m. \<lparr>shape = length (shape m) # shape m,
                     data = replicate (length (shape m) * length (data m)) 0\<rparr>)
            \<lparr>shape = [2, 2], data = [0, 2, 3, 5]\<rparr>
            \<lparr>shape = [2, 2, 2], data = [0, 0, 0, 100, 0, 0, 0, 100]\<rparr>) =
       Inr (Some ([e1, e2, e3], dP_masks)) \<and>
     e1 \<le> 2 \<and> e2 \<le> 2 \<and> 2 < e3 \<and>
     remove_bad_flow_masks
       (\<lambda>m. \<lparr>shape = length (shape m) # shape m,
                data = replicate (length (shape m) * length (data m)) 0\<rparr>)
       (\<lambda>b. \<lparr>shape = [2, 2], data = [0, 2, 3, 5]\<rparr>) 7
       \<lparr>shape = [2, 2, 2], data = [0, 0, 0, 100, 0, 0, 0, 100]\<rparr> 2 = Inr (h', 7) \<and>
     data (h' 7) = [0, 2, 0, 5]"
  using remove_bad_flow_masks_drops_consistent_instance [OF unit_flow_zero,
      of "\<lambda>b. \<lparr>shape = [2, 2], data = [0, 2, 3, 5]\<rparr>" 7]
  by simp

text \<open>
  Claim C8 (as amended).  When the spatial shape of the net flow differs from the shape
  of the label image, \<^verbatim>\<open>flow_error\<close> logs one message and returns \<^verbatim>\<open>None\<close>: it raises
  nothing and computes no error values.
\<close>

theorem flow_error_shape_mismatch:
  "drop 1 (shape dP_net) \<noteq> shape maski \<Longrightarrow>
     flow_error solver maski dP_net =
       ([''ERROR: net flow is not same size as predicted masks''], Inr None)"
  by (simp add: flow_error_def)

theorem flow_error_shape_mismatch_witness:
  "drop 1 (shape \<lparr>shape = [2, 1, 3], data = [0, 0, 0, 0, 0, 0 :: real]\<rparr>) \<noteq>
     shape \<lparr>shape = [2, 2], data = [0, 2, 3, 5 :: int]\<rparr> \<and>
   flow_error (\<lambda>m. \<lparr>shape = [], data = []\<rparr>) \<lparr>shape = [2, 2], data = [0, 2, 3, 5]\<rparr>
       \<lparr>shape = [2, 1, 3], data = [0, 0, 0, 0, 0, 0]\<rparr> =
     ([''ERROR: net flow is not same size as predicted masks''], Inr None)"
  using flow_error_shape_mismatch [of "\<lparr>shape = [2, 1, 3], data = [0, 0, 0, 0, 0, 0]\<rparr>"
      "\<lparr>shape = [2, 2], data = [0, 2, 3, 5]\<rparr>" "\<lambda>m. \<lparr>shape = [], data = []\<rparr>"]
  by simp

text \<open>
  The claim as stated fails: on a net flow of shape \<open>(2, 1, 3)\<close> for a label image of
  shape \<open>(2, 2)\<close> the call returns normally, with the value \<^verbatim>\<open>None\<close>; no exception
  reaches the caller of \<^verbatim>\<open>flow_error\<close>.
\<close>

theorem flow_error_returns_none_counterexample:
  "snd (flow_error (\<lambda>m. \<lparr>shape = [], data = []\<rparr>) \<lparr>shape = [2, 2], data = [0, 2, 3, 5]\<rparr>
          \<lparr>shape = [2, 1, 3], data = [0, 0, 0, 0, 0, 0]\<rparr>) = Inr None \<and>
   \<not> isl (snd (flow_error (\<lambda>m. \<lparr>shape = [], data = []\<rparr>) \<lparr>shape = [2, 2], data = [0, 2, 3, 5]\<rparr>
          \<lparr>shape = [2, 1, 3], data = [0, 0, 0, 0, 0, 0]\<rparr>))"
  by (simp add: flow_error_def)

section \<open>The seed of the point-source mode\<close>

text \<open>
  Claim C7, evaluated.  A ring (a \<open>3 \<times> 3\<close> square of label 1 without its middle pixel)
  has its centre of mass in the hole, so the median-based selection runs.  In the padded
  image the median of the coordinates of the ring is \<open>(2, 2)\<close> and the nearest pixels of
  the ring are at squared distance 1, the first of them \<open>(1, 2)\<close>.  The code returns
  the corner \<open>(1, 1)\<close>, at squared distance 2: it takes the median of each pixel's own
  coordinates and so picks the first pixel nearest to the diagonal.
\<close>

theorem centers_ring_not_nearest_to_median:
  "centers (pad1 \<lparr>shape = [3, 3], data = [1, 1, 1, 1, 0, 1, 1, 1, 1]\<rparr>) = [Inr [1, 1]] \<and>
   center_of_mass (pad1 \<lparr>shape = [3, 3], data = [1, 1, 1, 1, 0, 1, 1, 1, 1]\<rparr>) 1 = [2, 2] \<and>
   nearest_to_median (pad1 \<lparr>shape = [3, 3], data = [1, 1, 1, 1, 0, 1, 1, 1, 1]\<rparr>) 1 = [1, 2]"
  by code_simp

section \<open>Properties of \<^verbatim>\<open>follow_flows\<close> and \<^verbatim>\<open>compute_masks\<close>\<close>


lemma resolve_inds_mask:
  "resolve_inds dP (Some m) None True = nonzero_where (\<lambda>b. b) m"
  "length (nonzero_where (\<lambda>b. b) m) = count_nonzero (data m)"
proof -
  show "resolve_inds dP (Some m) None True = nonzero_where (\<lambda>b. b) m"
    by (simp add: resolve_inds_def)
  have "length (filter (\<lambda>i. xs ! i) [0..<length xs]) = length (filter (\<lambda>b. b) xs)" for xs :: "bool list"
  proof -
    have "filter (\<lambda>b. b) xs = map (\<lambda>i. xs ! i) (filter (\<lambda>i. xs ! i) [0..<length xs])"
      by (subst (1) map_nth [symmetric]) (simp only: filter_map comp_def)
    then show ?thesis by simp
  qed
  then show "length (nonzero_where (\<lambda>b. b) m) = count_nonzero (data m)"
    by (simp add: nonzero_where_def count_nonzero_def)
qed

lemma foreground_plain:
  "\<not> skimage_enabled G \<Longrightarrow> \<forall>v \<in> set (data dst). v \<le> mask_threshold A \<Longrightarrow>
     \<not> (\<exists>b \<in> set (data (foreground G A dst)). b)"
  by (auto simp: foreground_def)

text \<open>
  With no pixels supplied, in \<^verbatim>\<open>omni\<close> mode and with a mask (the call that
  \<^verbatim>\<open>compute_masks\<close> makes by default), the pixels to advect are the pixels of the mask: a
  mask of fewer than 5 pixels gives the meshgrid back.
\<close>

lemma follow_flows_small_mask:
  assumes "count_nonzero (data m) < 5"
  shows "follow_flows S dP (Some m) None n ip True ct =
           ([Log ''WARNING: no mask pixels found''],
            Inr (meshgrid (tl (shape dP)), nonzero_where (\<lambda>b. b) m, NoTrace))"
  using assms by (simp add: follow_flows_def Let_def resolve_inds_mask)






end
